theory Spec2Isabelle
  imports Complex_Main
begin

section \<open>JavaScript numbers\<close>

text \<open>
  Every quantity of the simulator is a JavaScript \<^verbatim>\<open>number\<close>.  The code tests its numbers
  with \<^verbatim>\<open>Number.isFinite\<close> and compares them with \<^verbatim>\<open><=\<close> and \<^verbatim>\<open>>=\<close>, so the three
  non-finite values are part of the model.  A finite number is idealised as the real number
  it stands for: the term \<open>Fin r\<close> denotes a number when \<open>\<bar>r\<bar> \<le> MAX_VALUE\<close>, an operation on
  finite numbers is exact, and a result beyond \<open>MAX_VALUE\<close> in magnitude overflows to the
  infinity of its sign.  Rounding, underflow and the sign of zero are not modelled.
\<close>

datatype number = Fin real | PosInfinity | NegInfinity | NaN

definition MAX_VALUE :: real where
  "MAX_VALUE = 2 ^ 1024 - 2 ^ 971"

definition fromReal :: "real \<Rightarrow> number" where
  "fromReal r =
     (if MAX_VALUE < r then PosInfinity
      else if r < - MAX_VALUE then NegInfinity
      else Fin r)"

fun Number_isFinite :: "number \<Rightarrow> bool" where
  "Number_isFinite (Fin r) = (\<bar>r\<bar> \<le> MAX_VALUE)"
| "Number_isFinite PosInfinity = False"
| "Number_isFinite NegInfinity = False"
| "Number_isFinite NaN = False"

text \<open>The terms that denote a number: every non-finite value, and \<open>Fin r\<close> within range.\<close>

fun isNumber :: "number \<Rightarrow> bool" where
  "isNumber (Fin r) = (\<bar>r\<bar> \<le> MAX_VALUE)"
| "isNumber PosInfinity = True"
| "isNumber NegInfinity = True"
| "isNumber NaN = True"

text \<open>The sign of a number other than \<open>NaN\<close>, as \<open>-1\<close>, \<open>0\<close> or \<open>1\<close>.\<close>

fun signOf :: "number \<Rightarrow> real" where
  "signOf (Fin r) = sgn r"
| "signOf PosInfinity = 1"
| "signOf NegInfinity = - 1"
| "signOf NaN = 0"

definition infinityOfSign :: "real \<Rightarrow> number" where
  "infinityOfSign s = (if s = 0 then NaN else if 0 < s then PosInfinity else NegInfinity)"

instantiation number :: "{uminus, plus, minus, times, inverse, ord}"
begin

fun uminus_number :: "number \<Rightarrow> number" where
  "- (Fin r) = Fin (- r)"
| "- PosInfinity = NegInfinity"
| "- NegInfinity = PosInfinity"
| "- NaN = NaN"

fun plus_number :: "number \<Rightarrow> number \<Rightarrow> number" where
  "Fin a + Fin b = fromReal (a + b)"
| "NaN + y = NaN"
| "x + NaN = NaN"
| "PosInfinity + NegInfinity = NaN"
| "NegInfinity + PosInfinity = NaN"
| "PosInfinity + y = PosInfinity"
| "x + PosInfinity = PosInfinity"
| "NegInfinity + y = NegInfinity"
| "x + NegInfinity = NegInfinity"

definition minus_number :: "number \<Rightarrow> number \<Rightarrow> number" where
  "x - y = x + (- y)" for x y :: number

fun times_number :: "number \<Rightarrow> number \<Rightarrow> number" where
  "Fin a * Fin b = fromReal (a * b)"
| "NaN * y = NaN"
| "x * NaN = NaN"
| "x * y = infinityOfSign (signOf x * signOf y)"

fun divide_number :: "number \<Rightarrow> number \<Rightarrow> number" where
  "divide (Fin a) (Fin b) =
     (if b = 0 then infinityOfSign (sgn a) else fromReal (a / b))"
| "divide NaN y = NaN"
| "divide x NaN = NaN"
| "divide (Fin a) y = Fin 0"
| "divide x (Fin b) = infinityOfSign (signOf x * (if b < 0 then - 1 else 1))"
| "divide x y = NaN"

definition inverse_number :: "number \<Rightarrow> number" where
  "inverse x = divide (Fin 1) x" for x :: number

fun less_number :: "number \<Rightarrow> number \<Rightarrow> bool" where
  "Fin a < Fin b \<longleftrightarrow> a < b"
| "NaN < y \<longleftrightarrow> False"
| "x < NaN \<longleftrightarrow> False"
| "x < NegInfinity \<longleftrightarrow> False"
| "PosInfinity < y \<longleftrightarrow> False"
| "(x :: number) < y \<longleftrightarrow> True"

definition less_eq_number :: "number \<Rightarrow> number \<Rightarrow> bool" where
  "x \<le> y \<longleftrightarrow> x < y \<or> (x = y \<and> x \<noteq> NaN)" for x y :: number

instance ..

end

section \<open>The integrator and the force model\<close>

text \<open>
  The code throws \<^verbatim>\<open>new Error(message)\<close>.  A message that starts with \<^verbatim>\<open>Invalid input\<close> is the
  \<open>InvalidInput\<close> of the specification; the messages about non-finite values are its
  \<open>NumericalDivergence\<close>.
\<close>

datatype error = Error string

definition isInvalidInput :: "error \<Rightarrow> bool" where
  "isInvalidInput e = (case e of Error msg \<Rightarrow> take 13 msg = ''Invalid input'')"

definition isNumericalDivergence :: "error \<Rightarrow> bool" where
  "isNumericalDivergence e =
     (e = Error ''Acceleration function returned non-finite value''
      \<or> e = Error ''Acceleration function returned non-finite value at k2''
      \<or> e = Error ''Acceleration function returned non-finite value at k3''
      \<or> e = Error ''Acceleration function returned non-finite value at k4''
      \<or> e = Error ''RK4 integration produced non-finite values'')"

record State =
  position :: number
  velocity :: number

text \<open>\<^verbatim>\<open>rk4Step\<close> of \<^verbatim>\<open>lib/integration.ts\<close>.  The acceleration function may throw.\<close>

definition rk4Step :: "State \<Rightarrow> number \<Rightarrow> (number \<Rightarrow> number \<Rightarrow> error + number) \<Rightarrow> error + State" where
  "rk4Step st dt accelerationFunc =
     (let x = position st; v = velocity st in
      if \<not> Number_isFinite x \<or> \<not> Number_isFinite v \<or> \<not> Number_isFinite dt
      then Inl (Error ''Invalid input: position, velocity, and dt must be finite numbers'')
      else
       let k1_dx = v in
       case accelerationFunc x v of Inl e \<Rightarrow> Inl e | Inr k1_dv \<Rightarrow>
       if \<not> Number_isFinite k1_dv
       then Inl (Error ''Acceleration function returned non-finite value'')
       else
        let k2_dx = v + k1_dv * dt / Fin 2 in
        case accelerationFunc (x + k1_dx * dt / Fin 2) (v + k1_dv * dt / Fin 2) of
          Inl e \<Rightarrow> Inl e | Inr k2_dv \<Rightarrow>
        if \<not> Number_isFinite k2_dv
        then Inl (Error ''Acceleration function returned non-finite value at k2'')
        else
         let k3_dx = v + k2_dv * dt / Fin 2 in
         case accelerationFunc (x + k2_dx * dt / Fin 2) (v + k2_dv * dt / Fin 2) of
           Inl e \<Rightarrow> Inl e | Inr k3_dv \<Rightarrow>
         if \<not> Number_isFinite k3_dv
         then Inl (Error ''Acceleration function returned non-finite value at k3'')
         else
          let k4_dx = v + k3_dv * dt in
          case accelerationFunc (x + k3_dx * dt) (v + k3_dv * dt) of
            Inl e \<Rightarrow> Inl e | Inr k4_dv \<Rightarrow>
          if \<not> Number_isFinite k4_dv
          then Inl (Error ''Acceleration function returned non-finite value at k4'')
          else
           let dx = (k1_dx + Fin 2 * k2_dx + Fin 2 * k3_dx + k4_dx) / Fin 6;
               dv = (k1_dv + Fin 2 * k2_dv + Fin 2 * k3_dv + k4_dv) / Fin 6;
               newPosition = x + dx * dt;
               newVelocity = v + dv * dt
           in if \<not> Number_isFinite newPosition \<or> \<not> Number_isFinite newVelocity
              then Inl (Error ''RK4 integration produced non-finite values'')
              else Inr \<lparr>position = newPosition, velocity = newVelocity\<rparr>)"

text \<open>The force model and the energies of \<^verbatim>\<open>lib/physics.ts\<close>.\<close>

definition computeSpringForce :: "number \<Rightarrow> number \<Rightarrow> error + number" where
  "computeSpringForce displacement springConstant =
     (if \<not> Number_isFinite displacement \<or> \<not> Number_isFinite springConstant
      then Inl (Error ''Invalid input: displacement and springConstant must be finite numbers'')
      else Inr ((- springConstant) * displacement))"

definition computeDampingForce :: "number \<Rightarrow> number \<Rightarrow> error + number" where
  "computeDampingForce vel dampingCoefficient =
     (if \<not> Number_isFinite vel \<or> \<not> Number_isFinite dampingCoefficient
      then Inl (Error ''Invalid input: velocity and dampingCoefficient must be finite numbers'')
      else if dampingCoefficient < Fin 0
      then Inl (Error ''Invalid input: dampingCoefficient must be non-negative'')
      else Inr ((- dampingCoefficient) * vel))"

definition computeAcceleration :: "number \<Rightarrow> number \<Rightarrow> error + number" where
  "computeAcceleration force mass =
     (if \<not> Number_isFinite force \<or> \<not> Number_isFinite mass
      then Inl (Error ''Invalid input: force and mass must be finite numbers'')
      else if mass \<le> Fin 0
      then Inl (Error ''Invalid input: mass must be positive'')
      else Inr (force / mass))"

definition computeKineticEnergy :: "number \<Rightarrow> number \<Rightarrow> error + number" where
  "computeKineticEnergy mass vel =
     (if \<not> Number_isFinite mass \<or> \<not> Number_isFinite vel
      then Inl (Error ''Invalid input: mass and velocity must be finite numbers'')
      else if mass \<le> Fin 0
      then Inl (Error ''Invalid input: mass must be positive'')
      else Inr (Fin (1/2) * mass * vel * vel))"

definition computePotentialEnergy :: "number \<Rightarrow> number \<Rightarrow> error + number" where
  "computePotentialEnergy springConstant displacement =
     (if \<not> Number_isFinite springConstant \<or> \<not> Number_isFinite displacement
      then Inl (Error ''Invalid input: springConstant and displacement must be finite numbers'')
      else if springConstant \<le> Fin 0
      then Inl (Error ''Invalid input: springConstant must be positive'')
      else Inr (Fin (1/2) * springConstant * displacement * displacement))"

definition computeTotalEnergy :: "number \<Rightarrow> number \<Rightarrow> number \<Rightarrow> number \<Rightarrow> error + number" where
  "computeTotalEnergy mass vel springConstant displacement =
     (case computeKineticEnergy mass vel of Inl e \<Rightarrow> Inl e | Inr kineticEnergy \<Rightarrow>
      case computePotentialEnergy springConstant displacement of Inl e \<Rightarrow> Inl e | Inr potentialEnergy \<Rightarrow>
      Inr (kineticEnergy + potentialEnergy))"

section \<open>The physics engine hook\<close>

record SpringParameters =
  mass :: number
  springConstant :: number
  initialLength :: number
  dampingCoefficient :: number

text \<open>
  \<^verbatim>\<open>computeAccelerationFromState\<close> of \<^verbatim>\<open>usePhysicsEngine\<close>, the acceleration function handed
  to the integrator.
\<close>

definition computeAccelerationFromState :: "SpringParameters \<Rightarrow> number \<Rightarrow> number \<Rightarrow> error + number" where
  "computeAccelerationFromState parameters pos vel =
     (case computeSpringForce pos (springConstant parameters) of Inl e \<Rightarrow> Inl e | Inr springForce \<Rightarrow>
      case computeDampingForce vel (dampingCoefficient parameters) of Inl e \<Rightarrow> Inl e | Inr dampingForce \<Rightarrow>
      let totalForce = springForce + dampingForce in
      computeAcceleration totalForce (mass parameters))"

text \<open>The object \<^verbatim>\<open>{ position, velocity, acceleration }\<close> that \<^verbatim>\<open>computeNextState\<close> returns.\<close>

record NextState = State +
  acceleration :: number

text \<open>
  \<^verbatim>\<open>computeNextState\<close> closes over the acceleration function; here it takes it as its first
  argument.
\<close>

definition computeNextState :: "(number \<Rightarrow> number \<Rightarrow> error + number) \<Rightarrow> State \<Rightarrow> number \<Rightarrow> error + NextState" where
  "computeNextState accelerationOfState currentState dt =
     (case rk4Step \<lparr>position = position currentState, velocity = velocity currentState\<rparr> dt
             accelerationOfState of
        Inl e \<Rightarrow> Inl e
      | Inr st \<Rightarrow>
         (case accelerationOfState (position st) (velocity st) of
            Inl e \<Rightarrow> Inl e
          | Inr acc \<Rightarrow> Inr \<lparr>position = position st, velocity = velocity st, acceleration = acc\<rparr>))"

definition computeEnergy :: "SpringParameters \<Rightarrow> number \<Rightarrow> number \<Rightarrow> error + number" where
  "computeEnergy parameters pos vel =
     computeTotalEnergy (mass parameters) vel (springConstant parameters) pos"

section \<open>The time-series buffer\<close>

definition TIMESTEP :: number where
  "TIMESTEP = Fin (1 / 60)"

definition GRAPH_UPDATE_INTERVAL :: number where
  "GRAPH_UPDATE_INTERVAL = Fin 100"

definition GRAPH_WINDOW_DURATION :: number where
  "GRAPH_WINDOW_DURATION = Fin 15"

text \<open>
  The fields of a \<^verbatim>\<open>DataPoint\<close> are \<^verbatim>\<open>time\<close> and \<^verbatim>\<open>value\<close>, and three of the four series of
  \<^verbatim>\<open>TimeSeriesData\<close> share their names with fields of the simulation state; the names that
  clash carry a prime here.
\<close>

record DataPoint =
  time' :: number
  value' :: number

record TimeSeriesData =
  displacement :: "DataPoint list"
  velocity' :: "DataPoint list"
  acceleration' :: "DataPoint list"
  totalEnergy :: "DataPoint list"

text \<open>
  \<^verbatim>\<open>pruneAndAdd\<close> is local to \<^verbatim>\<open>addDataPoint\<close> and reads its \<^verbatim>\<open>cutoffTime\<close> and \<^verbatim>\<open>time\<close>; they are
  its first two arguments here.
\<close>

definition pruneAndAdd :: "number \<Rightarrow> number \<Rightarrow> DataPoint list \<Rightarrow> number \<Rightarrow> DataPoint list" where
  "pruneAndAdd cutoffTime t points val =
     (let filtered = filter (\<lambda>point. time' point \<ge> cutoffTime) points
      in filtered @ [\<lparr>time' = t, value' = val\<rparr>])"

definition addDataPoint :: "number \<Rightarrow> number \<Rightarrow> number \<Rightarrow> number \<Rightarrow> number \<Rightarrow> TimeSeriesData \<Rightarrow> TimeSeriesData" where
  "addDataPoint t disp vel acc energy prev =
     (let cutoffTime = t - GRAPH_WINDOW_DURATION in
      \<lparr>displacement = pruneAndAdd cutoffTime t (displacement prev) disp,
       velocity' = pruneAndAdd cutoffTime t (velocity' prev) vel,
       acceleration' = pruneAndAdd cutoffTime t (acceleration' prev) acc,
       totalEnergy = pruneAndAdd cutoffTime t (totalEnergy prev) energy\<rparr>)"

definition clearData :: TimeSeriesData where
  "clearData = \<lparr>displacement = [], velocity' = [], acceleration' = [], totalEnergy = []\<rparr>"

section \<open>The simulation hook\<close>

record SimulationState = NextState +
  time :: number
  isRunning :: bool
  isPaused :: bool

text \<open>
  What \<^verbatim>\<open>useSimulation\<close> owns: the React state (\<open>state\<close> is its value with every queued
  update applied, in the order of the calls), the refs, the series of \<^verbatim>\<open>useGraphData\<close>, and
  the animation frames of the browser that were requested and neither run nor cancelled.
  \<^verbatim>\<open>lastFrameTimeRef\<close> is written and never read, and the locked graph domains are a
  rendering matter; both are left out.  The parameters of a run are fixed.
\<close>

record Simulation =
  state :: SimulationState
  stateRef :: SimulationState
  timeSeriesData :: TimeSeriesData
  rafIdRef :: "nat option"
  lastDataUpdateRef :: number
  rafPending :: "nat list"
  rafNext :: nat

definition initialState :: SimulationState where
  "initialState =
     \<lparr>position = Fin 0, velocity = Fin 0, acceleration = Fin 0,
      time = Fin 0, isRunning = False, isPaused = False\<rparr>"

definition useSimulation :: Simulation where
  "useSimulation =
     \<lparr>state = initialState, stateRef = initialState, timeSeriesData = clearData,
      rafIdRef = None, lastDataUpdateRef = Fin 0, rafPending = [], rafNext = 0\<rparr>"

definition requestAnimationFrame :: "Simulation \<Rightarrow> nat \<times> Simulation" where
  "requestAnimationFrame h =
     (rafNext h, h\<lparr>rafPending := rafPending h @ [rafNext h], rafNext := Suc (rafNext h)\<rparr>)"

definition cancelAnimationFrame :: "nat \<Rightarrow> Simulation \<Rightarrow> Simulation" where
  "cancelAnimationFrame handle h = h\<lparr>rafPending := removeAll handle (rafPending h)\<rparr>"

definition setInitialDisplacement :: "number \<Rightarrow> Simulation \<Rightarrow> Simulation" where
  "setInitialDisplacement disp h =
     h\<lparr>state := (state h)\<lparr>position := disp, velocity := Fin 0, acceleration := Fin 0\<rparr>\<rparr>"

definition start :: "Simulation \<Rightarrow> Simulation" where
  "start h =
     h\<lparr>state := (state h)\<lparr>isRunning := True, isPaused := False\<rparr>,
       lastDataUpdateRef := Fin 0\<rparr>"

definition pause :: "Simulation \<Rightarrow> Simulation" where
  "pause h = h\<lparr>state := (state h)\<lparr>isPaused := True\<rparr>\<rparr>"

definition resume :: "Simulation \<Rightarrow> Simulation" where
  "resume h = h\<lparr>state := (state h)\<lparr>isPaused := False\<rparr>\<rparr>"

text \<open>
  Cancelling the frame in \<^verbatim>\<open>rafIdRef\<close>, as \<^verbatim>\<open>reset\<close> and the cleanup of the loop effect both do.
\<close>

definition cancelPendingFrame :: "Simulation \<Rightarrow> Simulation" where
  "cancelPendingFrame h =
     (case rafIdRef h of
        None \<Rightarrow> h
      | Some handle \<Rightarrow> (cancelAnimationFrame handle h)\<lparr>rafIdRef := None\<rparr>)"

definition reset :: "Simulation \<Rightarrow> Simulation" where
  "reset h =
     cancelPendingFrame
       (h\<lparr>state := \<lparr>position = Fin 0, velocity = Fin 0, acceleration = Fin 0,
                    time = Fin 0, isRunning = False, isPaused = False\<rparr>,
          timeSeriesData := clearData\<rparr>)"

text \<open>\<^verbatim>\<open>rafIdRef.current = requestAnimationFrame(animate)\<close>.\<close>

definition scheduleAnimate :: "Simulation \<Rightarrow> Simulation" where
  "scheduleAnimate h = (case requestAnimationFrame h of (handle, h') \<Rightarrow> h'\<lparr>rafIdRef := Some handle\<rparr>)"

text \<open>The \<^verbatim>\<open>catch\<close> block of \<^verbatim>\<open>animate\<close>.\<close>

definition pauseOnError :: "Simulation \<Rightarrow> Simulation" where
  "pauseOnError h = h\<lparr>state := (state h)\<lparr>isPaused := True\<rparr>\<rparr>"

text \<open>
  \<^verbatim>\<open>animate\<close>, the frame callback.  Its two arguments are the \<^verbatim>\<open>computeNextState\<close> and the
  \<^verbatim>\<open>computeTotalEnergy\<close> that the hook obtains from the physics engine.  An exception of the
  energy computation is thrown after \<^verbatim>\<open>setState\<close> has queued the new state, so the \<^verbatim>\<open>catch\<close>
  block then pauses the new state.
\<close>

definition animate :: "(State \<Rightarrow> number \<Rightarrow> error + NextState) \<Rightarrow> (number \<Rightarrow> number \<Rightarrow> error + number) \<Rightarrow> Simulation \<Rightarrow> Simulation" where
  "animate nextStateOf energyOf h =
     (let current = stateRef h in
      if \<not> isRunning current \<or> isPaused current then h
      else
       case nextStateOf \<lparr>position = position current, velocity = velocity current\<rparr> TIMESTEP of
         Inl e \<Rightarrow> pauseOnError h
       | Inr nextState \<Rightarrow>
          (let newTime = time current + TIMESTEP;
               h1 = h\<lparr>state :=
                       \<lparr>position = position nextState, velocity = velocity nextState,
                        acceleration = acceleration nextState, time = newTime,
                        isRunning = True, isPaused = False\<rparr>\<rparr>;
               timeSinceLastUpdate = (newTime - lastDataUpdateRef h1) * Fin 1000
           in if timeSinceLastUpdate \<ge> GRAPH_UPDATE_INTERVAL
              then
               (case energyOf (position nextState) (velocity nextState) of
                  Inl e \<Rightarrow> pauseOnError h1
                | Inr energy \<Rightarrow>
                   scheduleAnimate
                     (h1\<lparr>timeSeriesData :=
                           addDataPoint newTime (position nextState) (velocity nextState)
                             (acceleration nextState) energy (timeSeriesData h1),
                         lastDataUpdateRef := newTime\<rparr>))
              else scheduleAnimate h1))"

text \<open>The body of the loop effect.\<close>

definition loopEffect :: "Simulation \<Rightarrow> Simulation" where
  "loopEffect h =
     (let currentState = stateRef h in
      if \<not> isRunning currentState \<or> isPaused currentState then h
      else scheduleAnimate h)"

text \<open>
  A render of the hook with its effects.  The first effect stores the state in \<^verbatim>\<open>stateRef\<close>.
  The loop effect depends on \<^verbatim>\<open>state.isRunning\<close> and \<^verbatim>\<open>state.isPaused\<close>: when either differs
  from the render before, whose state is the one in \<^verbatim>\<open>stateRef\<close>, its cleanup runs and then
  its body.
\<close>

definition commit :: "Simulation \<Rightarrow> Simulation" where
  "commit h =
     (let rendered = stateRef h;
          h1 = h\<lparr>stateRef := state h\<rparr>
      in if isRunning rendered = isRunning (state h) \<and> isPaused rendered = isPaused (state h)
         then h1
         else loopEffect (cancelPendingFrame h1))"

text \<open>The browser runs the oldest pending animation frame, if there is one.\<close>

definition tick :: "(State \<Rightarrow> number \<Rightarrow> error + NextState) \<Rightarrow> (number \<Rightarrow> number \<Rightarrow> error + number) \<Rightarrow> Simulation \<Rightarrow> Simulation" where
  "tick nextStateOf energyOf h =
     (case rafPending h of
        [] \<Rightarrow> h
      | handle # rest \<Rightarrow> animate nextStateOf energyOf (h\<lparr>rafPending := rest\<rparr>))"

section \<open>The host: frames, renders and runs\<close>

text \<open>
  One frame of a driver: the browser runs the pending animation frame, then React renders
  the hook and runs its effects.
\<close>

definition frame :: "(State \<Rightarrow> number \<Rightarrow> error + NextState) \<Rightarrow> (number \<Rightarrow> number \<Rightarrow> error + number) \<Rightarrow> Simulation \<Rightarrow> Simulation" where
  "frame nextStateOf energyOf h = commit (tick nextStateOf energyOf h)"

fun advance :: "(State \<Rightarrow> number \<Rightarrow> error + NextState) \<Rightarrow> (number \<Rightarrow> number \<Rightarrow> error + number) \<Rightarrow> nat \<Rightarrow> Simulation \<Rightarrow> Simulation" where
  "advance nextStateOf energyOf 0 h = h"
| "advance nextStateOf energyOf (Suc n) h =
     advance nextStateOf energyOf n (frame nextStateOf energyOf h)"

text \<open>A run of the hook for a parameter set, with the functions of its physics engine.\<close>

definition advanceWith :: "SpringParameters \<Rightarrow> nat \<Rightarrow> Simulation \<Rightarrow> Simulation" where
  "advanceWith parameters =
     advance (computeNextState (computeAccelerationFromState parameters)) (computeEnergy parameters)"

text \<open>What the host may do on its own, in any order: run a frame callback, or render.\<close>

datatype hostEvent = Tick | Render

fun hostRun :: "(State \<Rightarrow> number \<Rightarrow> error + NextState) \<Rightarrow> (number \<Rightarrow> number \<Rightarrow> error + number) \<Rightarrow> hostEvent list \<Rightarrow> Simulation \<Rightarrow> Simulation" where
  "hostRun nextStateOf energyOf [] h = h"
| "hostRun nextStateOf energyOf (Tick # evs) h =
     hostRun nextStateOf energyOf evs (tick nextStateOf energyOf h)"
| "hostRun nextStateOf energyOf (Render # evs) h =
     hostRun nextStateOf energyOf evs (commit h)"

text \<open>
  The bookkeeping of frames that the hook maintains: at most one frame is pending, its handle
  is the one in \<^verbatim>\<open>rafIdRef\<close>, and it was requested while the rendered state was running.
\<close>

definition consistent :: "Simulation \<Rightarrow> bool" where
  "consistent h =
     (case rafPending h of
        [] \<Rightarrow> True
      | [handle] \<Rightarrow> rafIdRef h = Some handle \<and> isRunning (stateRef h) \<and> \<not> isPaused (stateRef h)
      | _ \<Rightarrow> False)"

text \<open>
  A hook at rest between two frames: the state is rendered, and a frame is pending exactly
  when the run is active.
\<close>

definition settled :: "Simulation \<Rightarrow> bool" where
  "settled h =
     (consistent h \<and> stateRef h = state h
      \<and> (rafPending h \<noteq> [] \<longleftrightarrow> isRunning (state h) \<and> \<not> isPaused (state h)))"

text \<open>The invariant of section 3 of the specification on the parameters.\<close>

definition validParameters :: "SpringParameters \<Rightarrow> bool" where
  "validParameters parameters =
     (Number_isFinite (mass parameters) \<and> Fin 0 < mass parameters
      \<and> Number_isFinite (springConstant parameters) \<and> Fin 0 < springConstant parameters
      \<and> Number_isFinite (initialLength parameters) \<and> Fin 0 < initialLength parameters
      \<and> Number_isFinite (dampingCoefficient parameters) \<and> Fin 0 \<le> dampingCoefficient parameters)"

text \<open>The four channels of the buffer, and what an observer sees of a run.\<close>

definition channels :: "TimeSeriesData \<Rightarrow> DataPoint list list" where
  "channels ts = [displacement ts, velocity' ts, acceleration' ts, totalEnergy ts]"

definition observable :: "Simulation \<Rightarrow> (number \<times> number \<times> number \<times> number) \<times> TimeSeriesData" where
  "observable h =
     ((position (state h), velocity (state h), acceleration (state h), time (state h)),
      timeSeriesData h)"

text \<open>
  A run is active when it is running and not paused.  The core of a hook is what its frames
  compute with besides the rendered state: the state, the series and the time of the last
  sample.
\<close>

definition active :: "SimulationState \<Rightarrow> bool" where
  "active s = (isRunning s \<and> \<not> isPaused s)"

definition core :: "Simulation \<Rightarrow> SimulationState \<times> TimeSeriesData \<times> number" where
  "core h = (state h, timeSeriesData h, lastDataUpdateRef h)"

text \<open>
  The parameters that \<^verbatim>\<open>App.tsx\<close> starts with, and a run that was started and then given a
  displacement of half a metre.
\<close>

definition defaultParameters :: SpringParameters where
  "defaultParameters =
     \<lparr>mass = Fin 10, springConstant = Fin 100, initialLength = Fin 2,
      dampingCoefficient = Fin (1 / 2)\<rparr>"

definition displacedRun :: Simulation where
  "displacedRun = commit (setInitialDisplacement (Fin (1 / 2)) (commit (start useSimulation)))"

section \<open>The update of the specification\<close>

text \<open>
  Section 4.2 of the specification, line by line, for an acceleration function that returns
  a number:
  \<^verbatim>\<open>k1x = v;            k1v = a(x, v)\<close>
  \<^verbatim>\<open>k2x = v + k1v*dt/2;  k2v = a(x + k1x*dt/2, v + k1v*dt/2)\<close>
  \<^verbatim>\<open>k3x = v + k2v*dt/2;  k3v = a(x + k2x*dt/2, v + k2v*dt/2)\<close>
  \<^verbatim>\<open>k4x = v + k3v*dt;    k4v = a(x + k3x*dt, v + k3v*dt)\<close>
  \<^verbatim>\<open>x' = x + dt/6*(k1x+2k2x+2k3x+k4x)\<close>
  \<^verbatim>\<open>v' = v + dt/6*(k1v+2k2v+2k3v+k4v)\<close>
\<close>

definition k1x :: "(number \<Rightarrow> number \<Rightarrow> number) \<Rightarrow> number \<Rightarrow> number \<Rightarrow> number \<Rightarrow> number" where
  "k1x a x v dt = v"

definition k1v :: "(number \<Rightarrow> number \<Rightarrow> number) \<Rightarrow> number \<Rightarrow> number \<Rightarrow> number \<Rightarrow> number" where
  "k1v a x v dt = a x v"

definition k2x :: "(number \<Rightarrow> number \<Rightarrow> number) \<Rightarrow> number \<Rightarrow> number \<Rightarrow> number \<Rightarrow> number" where
  "k2x a x v dt = v + k1v a x v dt * dt / Fin 2"

definition k2v :: "(number \<Rightarrow> number \<Rightarrow> number) \<Rightarrow> number \<Rightarrow> number \<Rightarrow> number \<Rightarrow> number" where
  "k2v a x v dt = a (x + k1x a x v dt * dt / Fin 2) (v + k1v a x v dt * dt / Fin 2)"

definition k3x :: "(number \<Rightarrow> number \<Rightarrow> number) \<Rightarrow> number \<Rightarrow> number \<Rightarrow> number \<Rightarrow> number" where
  "k3x a x v dt = v + k2v a x v dt * dt / Fin 2"

definition k3v :: "(number \<Rightarrow> number \<Rightarrow> number) \<Rightarrow> number \<Rightarrow> number \<Rightarrow> number \<Rightarrow> number" where
  "k3v a x v dt = a (x + k2x a x v dt * dt / Fin 2) (v + k2v a x v dt * dt / Fin 2)"

definition k4x :: "(number \<Rightarrow> number \<Rightarrow> number) \<Rightarrow> number \<Rightarrow> number \<Rightarrow> number \<Rightarrow> number" where
  "k4x a x v dt = v + k3v a x v dt * dt"

definition k4v :: "(number \<Rightarrow> number \<Rightarrow> number) \<Rightarrow> number \<Rightarrow> number \<Rightarrow> number \<Rightarrow> number" where
  "k4v a x v dt = a (x + k3x a x v dt * dt) (v + k3v a x v dt * dt)"

definition classicalPosition :: "(number \<Rightarrow> number \<Rightarrow> number) \<Rightarrow> number \<Rightarrow> number \<Rightarrow> number \<Rightarrow> number" where
  "classicalPosition a x v dt =
     x + dt / Fin 6 * (k1x a x v dt + Fin 2 * k2x a x v dt + Fin 2 * k3x a x v dt + k4x a x v dt)"

definition classicalVelocity :: "(number \<Rightarrow> number \<Rightarrow> number) \<Rightarrow> number \<Rightarrow> number \<Rightarrow> number \<Rightarrow> number" where
  "classicalVelocity a x v dt =
     v + dt / Fin 6 * (k1v a x v dt + Fin 2 * k2v a x v dt + Fin 2 * k3v a x v dt + k4v a x v dt)"

section \<open>Numbers: basic facts\<close>

lemma MAX_VALUE_large: "1000000000000000000000000000000000000000000000000000000000000 \<le> MAX_VALUE"
  by (simp add: MAX_VALUE_def)

lemma fromReal_small:
  "\<bar>r\<bar> \<le> 1000000000000000000000000000000000000000000000000000000000000 \<Longrightarrow> fromReal r = Fin r"
  using MAX_VALUE_large by (auto simp: fromReal_def)

lemma finite_small:
  "\<bar>r\<bar> \<le> 1000000000000000000000000000000000000000000000000000000000000 \<Longrightarrow> Number_isFinite (Fin r) = True"
  using MAX_VALUE_large by auto

section \<open>The hook: renders and frames\<close>

lemmas raf_defs = cancelPendingFrame_def cancelAnimationFrame_def scheduleAnimate_def
  requestAnimationFrame_def loopEffect_def

lemma commit_fields:
  "state (commit h) = state h"
  "stateRef (commit h) = state h"
  "timeSeriesData (commit h) = timeSeriesData h"
  "lastDataUpdateRef (commit h) = lastDataUpdateRef h"
  by (simp_all add: commit_def raf_defs Let_def split: option.splits)

lemma commit_same:
  "isRunning (stateRef h) = isRunning (state h) \<Longrightarrow> isPaused (stateRef h) = isPaused (state h)
   \<Longrightarrow> commit h = h\<lparr>stateRef := state h\<rparr>"
  by (simp add: commit_def Let_def)

lemma commit_changed:
  "isRunning (stateRef h) \<noteq> isRunning (state h) \<or> isPaused (stateRef h) \<noteq> isPaused (state h)
   \<Longrightarrow> commit h = loopEffect (cancelPendingFrame (h\<lparr>stateRef := state h\<rparr>))"
  by (auto simp add: commit_def Let_def)

lemma rerun_pending:
  "consistent h \<Longrightarrow>
   rafPending (loopEffect (cancelPendingFrame (h\<lparr>stateRef := s\<rparr>))) =
     (if active s then [rafNext h] else [])"
  "consistent h \<Longrightarrow>
   rafIdRef (loopEffect (cancelPendingFrame (h\<lparr>stateRef := s\<rparr>))) =
     (if active s then Some (rafNext h) else None)"
  by (auto simp: consistent_def active_def raf_defs Let_def split: list.splits option.splits)

lemma rerun_fields:
  "state (loopEffect (cancelPendingFrame h)) = state h"
  "stateRef (loopEffect (cancelPendingFrame h)) = stateRef h"
  "timeSeriesData (loopEffect (cancelPendingFrame h)) = timeSeriesData h"
  "lastDataUpdateRef (loopEffect (cancelPendingFrame h)) = lastDataUpdateRef h"
  by (simp_all add: raf_defs Let_def split: option.splits)

lemma settled_commit:
  assumes "consistent h"
    and "active (stateRef h) = active (state h) \<longrightarrow> (rafPending h \<noteq> [] \<longleftrightarrow> active (state h))"
  shows "settled (commit h)"
proof (cases "isRunning (stateRef h) = isRunning (state h) \<and> isPaused (stateRef h) = isPaused (state h)")
  case True
  then have "commit h = h\<lparr>stateRef := state h\<rparr>" by (simp add: commit_same)
  moreover have "active (state h) = active (stateRef h)" using True by (auto simp: active_def)
  ultimately show ?thesis using assms
    by (auto simp: settled_def consistent_def active_def split: list.splits)
next
  case False
  then have c: "commit h = loopEffect (cancelPendingFrame (h\<lparr>stateRef := state h\<rparr>))"
    by (intro commit_changed) auto
  show ?thesis
    unfolding c settled_def consistent_def
    using assms(1) by (simp add: rerun_pending rerun_fields active_def)
qed

lemma animate_idle: "\<not> active (stateRef h) \<Longrightarrow> animate cns cte h = h"
  by (auto simp: animate_def active_def Let_def)

lemma animate_stateRef: "stateRef (animate cns cte h) = stateRef h"
  by (simp add: animate_def Let_def pauseOnError_def raf_defs split: sum.splits)

lemma animate_core:
  "core (animate cns cte (h\<lparr>rafIdRef := a, rafPending := b, rafNext := c\<rparr>)) = core (animate cns cte h)"
  by (simp add: core_def animate_def Let_def pauseOnError_def raf_defs split: sum.splits)

lemma animate_raf:
  assumes "active (stateRef h)"
  shows "(isPaused (state (animate cns cte h)) \<and> rafPending (animate cns cte h) = rafPending h
            \<and> rafIdRef (animate cns cte h) = rafIdRef h)
         \<or> (active (state (animate cns cte h)) \<and> rafPending (animate cns cte h) = rafPending h @ [rafNext h]
            \<and> rafIdRef (animate cns cte h) = Some (rafNext h))"
  using assms
  by (simp add: active_def animate_def Let_def pauseOnError_def raf_defs split: sum.splits)

lemma settled_idle:
  assumes "settled h" "\<not> active (state h)"
  shows "frame cns cte h = h"
proof -
  have "rafPending h = []" using assms by (auto simp: settled_def active_def)
  then have "tick cns cte h = h" by (simp add: tick_def)
  moreover have "commit h = h\<lparr>stateRef := state h\<rparr>"
    using assms(1) by (intro commit_same) (simp_all add: settled_def)
  moreover have "stateRef h = state h" using assms(1) by (simp add: settled_def)
  ultimately show ?thesis by (simp add: frame_def)
qed

lemma settled_tick:
  "settled h \<Longrightarrow> active (state h) \<Longrightarrow> tick cns cte h = animate cns cte (h\<lparr>rafPending := []\<rparr>)"
  by (auto simp: settled_def consistent_def active_def tick_def split: list.splits)

lemma settled_frame: 
  assumes "settled h" shows "settled (frame cns cte h)"
proof (cases "active (state h)")
  case False
  then show ?thesis using assms by (simp add: settled_idle)
next
  case True
  let ?g = "animate cns cte (h\<lparr>rafPending := []\<rparr>)"
  have t: "tick cns cte h = ?g" using assms True by (rule settled_tick)
  have sr: "stateRef ?g = state h" using assms by (simp add: animate_stateRef settled_def)
  have a: "active (stateRef (h\<lparr>rafPending := []\<rparr>))" using assms True by (simp add: settled_def)
  from animate_raf[OF a, of cns cte]
  have "consistent ?g \<and> (active (stateRef ?g) = active (state ?g) \<longrightarrow> (rafPending ?g \<noteq> [] \<longleftrightarrow> active (state ?g)))"
    using True sr by (auto simp: consistent_def active_def)
  then show ?thesis unfolding frame_def t by (intro settled_commit) auto
qed

lemma core_commit: "core (commit h) = core h"
  by (simp add: core_def commit_fields)

lemma frame_cong:
  assumes "settled h" "settled h'" "core h = core h'"
  shows "core (frame cns cte h) = core (frame cns cte h')"
proof (cases "active (state h)")
  case False
  then show ?thesis using assms by (simp add: settled_idle core_def)
next
  case True
  then have True': "active (state h')" using assms(3) by (simp add: core_def)
  have eq: "h'\<lparr>rafPending := []\<rparr> = (h\<lparr>rafPending := []\<rparr>)\<lparr>rafIdRef := rafIdRef h', rafPending := [], rafNext := rafNext h'\<rparr>"
    using assms by (simp add: core_def settled_def)
  have "core (tick cns cte h') = core (tick cns cte h)"
    unfolding settled_tick[OF assms(1) True] settled_tick[OF assms(2) True'] eq
    by (rule animate_core)
  then show ?thesis by (simp add: frame_def core_commit)
qed


lemma settled_setState:
  assumes "settled h"
  shows "settled (commit (h\<lparr>state := s\<rparr>))"
    and "core (commit (h\<lparr>state := s\<rparr>)) = (s, timeSeriesData h, lastDataUpdateRef h)"
proof -
  have "consistent (h\<lparr>state := s\<rparr>)" using assms by (simp add: settled_def consistent_def split: list.splits)
  moreover have "active (stateRef (h\<lparr>state := s\<rparr>)) = active (state (h\<lparr>state := s\<rparr>))
      \<longrightarrow> (rafPending (h\<lparr>state := s\<rparr>) \<noteq> [] \<longleftrightarrow> active (state (h\<lparr>state := s\<rparr>)))"
    using assms by (auto simp: settled_def active_def)
  ultimately show "settled (commit (h\<lparr>state := s\<rparr>))" by (rule settled_commit)
  show "core (commit (h\<lparr>state := s\<rparr>)) = (s, timeSeriesData h, lastDataUpdateRef h)"
    by (simp add: core_commit) (simp add: core_def)
qed

lemma settled_advance: "settled h \<Longrightarrow> settled (advance cns cte n h)"
  by (induction n arbitrary: h) (simp_all add: settled_frame)

lemma advance_cong:
  "settled h \<Longrightarrow> settled h' \<Longrightarrow> core h = core h'
   \<Longrightarrow> core (advance cns cte n h) = core (advance cns cte n h')"
proof (induction n arbitrary: h h')
  case 0
  then show ?case by simp
next
  case (Suc n)
  have c: "core (frame cns cte h) = core (frame cns cte h')"
    using Suc.prems by (rule frame_cong)
  have s: "settled (frame cns cte h)" "settled (frame cns cte h')"
    using Suc.prems by (simp_all add: settled_frame)
  show ?case unfolding advance.simps using s c by (rule Suc.IH)
qed

lemma advance_add: "advance cns cte (n + m) h = advance cns cte m (advance cns cte n h)"
  by (induction n arbitrary: h) simp_all

lemma advance_idle: "settled h \<Longrightarrow> \<not> active (state h) \<Longrightarrow> advance cns cte n h = h"
  by (induction n) (simp_all add: settled_idle)


lemma animate_outcome:
  assumes "active (stateRef h)" "stateRef h = state h"
    and E: "\<And>st dt ns. cns st dt = Inr ns \<Longrightarrow> \<exists>en. cte (position ns) (velocity ns) = Inr en"
  shows "active (state (animate cns cte h))
         \<or> ((\<exists>e. cns \<lparr>position = position (state h), velocity = velocity (state h)\<rparr> TIMESTEP = Inl e)
             \<and> core (animate cns cte h) = ((state h)\<lparr>isPaused := True\<rparr>, timeSeriesData h, lastDataUpdateRef h))"
proof (cases "cns \<lparr>position = position (state h), velocity = velocity (state h)\<rparr> TIMESTEP")
  case (Inl e)
  then show ?thesis using assms(1,2)
    by (simp add: animate_def active_def core_def pauseOnError_def)
next
  case (Inr ns)
  from E[OF Inr] obtain en where "cte (position ns) (velocity ns) = Inr en" by blast
  then show ?thesis using assms(1,2) Inr
    by (simp add: animate_def active_def Let_def raf_defs)
qed

lemma frame_outcome:
  assumes "settled h" "active (state h)"
    and E: "\<And>st dt ns. cns st dt = Inr ns \<Longrightarrow> \<exists>en. cte (position ns) (velocity ns) = Inr en"
  shows "active (state (frame cns cte h))
         \<or> ((\<exists>e. cns \<lparr>position = position (state h), velocity = velocity (state h)\<rparr> TIMESTEP = Inl e)
             \<and> core (frame cns cte h) = ((state h)\<lparr>isPaused := True\<rparr>, timeSeriesData h, lastDataUpdateRef h))"
proof -
  let ?h = "h\<lparr>rafPending := []\<rparr>"
  have t: "tick cns cte h = animate cns cte ?h" using assms(1,2) by (rule settled_tick)
  have a1: "active (stateRef ?h)" and a2: "stateRef ?h = state ?h"
    using assms(1,2) by (simp_all add: settled_def)
  have o: "active (state (animate cns cte ?h))
         \<or> ((\<exists>e. cns \<lparr>position = position (state ?h), velocity = velocity (state ?h)\<rparr> TIMESTEP = Inl e)
             \<and> core (animate cns cte ?h) = ((state ?h)\<lparr>isPaused := True\<rparr>, timeSeriesData ?h, lastDataUpdateRef ?h))"
    using a1 a2 E by (rule animate_outcome)
  have c: "core (frame cns cte h) = core (animate cns cte ?h)"
    by (simp add: frame_def t core_commit)
  have s: "state (frame cns cte h) = state (animate cns cte ?h)"
    by (simp add: frame_def t commit_fields)
  show ?thesis using o unfolding c s by simp
qed


lemma rk4Step_finite:
  "rk4Step st dt a = Inr st' \<Longrightarrow> Number_isFinite (position st') \<and> Number_isFinite (velocity st')"
  by (auto simp: rk4Step_def Let_def split: sum.splits if_splits)

lemma positive_not_le: "Fin 0 < m \<Longrightarrow> \<not> m \<le> Fin 0"
  by (cases m) (auto simp: less_eq_number_def)

lemma energy_after_step:
  assumes "validParameters p"
    and "computeNextState (computeAccelerationFromState p) st dt = Inr ns"
  shows "\<exists>en. computeEnergy p (position ns) (velocity ns) = Inr en"
proof -
  from assms(2) obtain st' where r: "rk4Step \<lparr>position = position st, velocity = velocity st\<rparr> dt (computeAccelerationFromState p) = Inr st'"
    and ns: "position ns = position st'" "velocity ns = velocity st'"
    by (auto simp: computeNextState_def split: sum.splits)
  from rk4Step_finite[OF r] have "Number_isFinite (position ns)" "Number_isFinite (velocity ns)"
    by (simp_all add: ns)
  then show ?thesis using assms(1)
    by (simp add: computeEnergy_def computeTotalEnergy_def computeKineticEnergy_def
        computePotentialEnergy_def validParameters_def positive_not_le)
qed


lemma observable_core: "core h = core h' \<Longrightarrow> observable h = observable h'"
  by (simp add: core_def observable_def)

lemma frame_fail:
  assumes "settled h" "active (state h)"
    and "cns \<lparr>position = position (state h), velocity = velocity (state h)\<rparr> TIMESTEP = Inl e"
  shows "core (frame cns cte h) = ((state h)\<lparr>isPaused := True\<rparr>, timeSeriesData h, lastDataUpdateRef h)"
proof -
  let ?h = "h\<lparr>rafPending := []\<rparr>"
  have t: "tick cns cte h = animate cns cte ?h" using assms(1,2) by (rule settled_tick)
  have "animate cns cte ?h = pauseOnError ?h"
    using assms by (simp add: animate_def settled_def active_def)
  then show ?thesis
    by (simp add: frame_def t core_commit) (simp add: core_def pauseOnError_def)
qed

lemma frame_keeps_failure:
  assumes "settled h"
    and E: "\<And>st dt ns. cns st dt = Inr ns \<Longrightarrow> \<exists>en. cte (position ns) (velocity ns) = Inr en"
    and J: "isRunning (state h) \<and> isPaused (state h) \<longrightarrow>
            (\<exists>e. cns \<lparr>position = position (state h), velocity = velocity (state h)\<rparr> TIMESTEP = Inl e)"
  shows "isRunning (state (frame cns cte h)) \<and> isPaused (state (frame cns cte h)) \<longrightarrow>
            (\<exists>e. cns \<lparr>position = position (state (frame cns cte h)),
                       velocity = velocity (state (frame cns cte h))\<rparr> TIMESTEP = Inl e)"
proof (cases "active (state h)")
  case False
  then show ?thesis using assms(1) J by (simp add: settled_idle)
next
  case True
  have "active (state (frame cns cte h))
         \<or> ((\<exists>e. cns \<lparr>position = position (state h), velocity = velocity (state h)\<rparr> TIMESTEP = Inl e)
             \<and> core (frame cns cte h) = ((state h)\<lparr>isPaused := True\<rparr>, timeSeriesData h, lastDataUpdateRef h))"
    using assms(1) True E by (rule frame_outcome)
  then show ?thesis by (auto simp: active_def core_def)
qed

lemma advance_keeps_failure:
  assumes E: "\<And>st dt ns. cns st dt = Inr ns \<Longrightarrow> \<exists>en. cte (position ns) (velocity ns) = Inr en"
  shows "settled h \<Longrightarrow>
     (isRunning (state h) \<and> isPaused (state h) \<longrightarrow>
        (\<exists>e. cns \<lparr>position = position (state h), velocity = velocity (state h)\<rparr> TIMESTEP = Inl e)) \<Longrightarrow>
     isRunning (state (advance cns cte n h)) \<and> isPaused (state (advance cns cte n h)) \<longrightarrow>
        (\<exists>e. cns \<lparr>position = position (state (advance cns cte n h)),
                   velocity = velocity (state (advance cns cte n h))\<rparr> TIMESTEP = Inl e)"
proof (induction n arbitrary: h)
  case 0
  then show ?case by simp
next
  case (Suc n)
  have "settled (frame cns cte h)" using Suc.prems(1) by (rule settled_frame)
  moreover have "isRunning (state (frame cns cte h)) \<and> isPaused (state (frame cns cte h)) \<longrightarrow>
            (\<exists>e. cns \<lparr>position = position (state (frame cns cte h)),
                       velocity = velocity (state (frame cns cte h))\<rparr> TIMESTEP = Inl e)"
    using Suc.prems(1) E Suc.prems(2) by (rule frame_keeps_failure)
  ultimately show ?case unfolding advance.simps by (rule Suc.IH)
qed

lemma pause_resume_core:
  assumes "settled g"
  shows "settled (commit (resume (commit (pause g))))"
    and "core (commit (resume (commit (pause g)))) =
           ((state g)\<lparr>isPaused := False\<rparr>, timeSeriesData g, lastDataUpdateRef g)"
proof -
  let ?p = "commit (pause g)"
  have p: "settled ?p" "core ?p = ((state g)\<lparr>isPaused := True\<rparr>, timeSeriesData g, lastDataUpdateRef g)"
    unfolding pause_def using assms by (rule settled_setState)+
  have r: "settled (commit (resume ?p))"
    "core (commit (resume ?p)) = ((state ?p)\<lparr>isPaused := False\<rparr>, timeSeriesData ?p, lastDataUpdateRef ?p)"
    unfolding resume_def using p(1) by (rule settled_setState)+
  show "settled (commit (resume ?p))" by (rule r(1))
  show "core (commit (resume ?p)) = ((state g)\<lparr>isPaused := False\<rparr>, timeSeriesData g, lastDataUpdateRef g)"
    using p(2) by (simp add: r(2)) (simp add: core_def)
qed

lemma unpause_active: "active s \<Longrightarrow> s\<lparr>isPaused := False\<rparr> = s"
  by (cases s) (simp add: active_def)

lemma pause_resume_general:
  assumes E: "\<And>st dt ns. cns st dt = Inr ns \<Longrightarrow> \<exists>en. cte (position ns) (velocity ns) = Inr en"
    and g: "settled g"
    and J: "isRunning (state g) \<and> isPaused (state g) \<longrightarrow>
        (\<exists>e. cns \<lparr>position = position (state g), velocity = velocity (state g)\<rparr> TIMESTEP = Inl e)"
  shows "observable (advance cns cte m (commit (resume (commit (pause g))))) = observable (advance cns cte m g)"
proof -
  let ?r = "commit (resume (commit (pause g)))"
  note r = pause_resume_core[OF g]
  show ?thesis
  proof (cases "active (state g)")
    case True
    then have "core ?r = core g" by (simp add: r(2) unpause_active) (simp add: core_def)
    with r(1) g have "core (advance cns cte m ?r) = core (advance cns cte m g)"
      by (rule advance_cong)
    then show ?thesis by (rule observable_core)
  next
    case False
    then have idle: "advance cns cte m g = g" using g by (simp add: advance_idle)
    have sr: "state ?r = (state g)\<lparr>isPaused := False\<rparr>" "timeSeriesData ?r = timeSeriesData g"
      using r(2) by (simp_all add: core_def)
    show ?thesis
    proof (cases "isRunning (state g)")
      case nr: False
      then have "\<not> active (state ?r)" by (simp add: sr active_def)
      then have "advance cns cte m ?r = ?r" using r(1) by (simp add: advance_idle)
      then show ?thesis by (simp add: idle observable_def sr)
    next
      case run: True
      then have paused: "isPaused (state g)" using False by (simp add: active_def)
      from J run paused obtain e where
        fail: "cns \<lparr>position = position (state g), velocity = velocity (state g)\<rparr> TIMESTEP = Inl e"
        by blast
      have act: "active (state ?r)" using run by (simp add: sr active_def)
      show ?thesis
      proof (cases m)
        case 0
        then show ?thesis by (simp add: observable_def sr)
      next
        case (Suc k)
        have "cns \<lparr>position = position (state ?r), velocity = velocity (state ?r)\<rparr> TIMESTEP = Inl e"
          using fail by (simp add: sr)
        with r(1) act
        have c: "core (frame cns cte ?r) = ((state ?r)\<lparr>isPaused := True\<rparr>, timeSeriesData ?r, lastDataUpdateRef ?r)"
          by (rule frame_fail)
        then have "\<not> active (state (frame cns cte ?r))" by (simp add: core_def active_def)
        moreover have "settled (frame cns cte ?r)" using r(1) by (rule settled_frame)
        ultimately have "advance cns cte k (frame cns cte ?r) = frame cns cte ?r"
          by (simp add: advance_idle)
        then have l: "advance cns cte m ?r = frame cns cte ?r" by (simp add: Suc)
        show ?thesis unfolding l idle using c by (simp add: observable_def core_def sr)
      qed
    qed
  qed
qed


lemma displacedRun_eq:
  "displacedRun =
     \<lparr>state = \<lparr>position = Fin (1 / 2), velocity = Fin 0, acceleration = Fin 0,
               time = Fin 0, isRunning = True, isPaused = False\<rparr>,
      stateRef = \<lparr>position = Fin (1 / 2), velocity = Fin 0, acceleration = Fin 0,
               time = Fin 0, isRunning = True, isPaused = False\<rparr>,
      timeSeriesData = clearData, rafIdRef = Some 0, lastDataUpdateRef = Fin 0,
      rafPending = [0], rafNext = Suc 0\<rparr>"
  by (simp add: displacedRun_def commit_def start_def setInitialDisplacement_def useSimulation_def
      initialState_def raf_defs Let_def)

lemma settled_displacedRun: "settled displacedRun"
  by (simp add: displacedRun_eq settled_def consistent_def)

lemma valid_defaultParameters: "validParameters defaultParameters"
  by (simp add: validParameters_def defaultParameters_def finite_small less_eq_number_def
      del: Number_isFinite.simps(1))

section \<open>The claims\<close>

text \<open>
  C5.  A run that advances \<open>N\<close> frames, is paused, is resumed and advances \<open>M\<close> more frames
  shows the same position, velocity, acceleration, elapsed time and sample series as the run
  that advances \<open>N + M\<close> frames without the pause.  The run starts at rest between two frames
  and not paused, with any state and any buffer, the parameters are valid, and each call of
  \<^verbatim>\<open>pause\<close> and \<^verbatim>\<open>resume\<close> is rendered before the next frame, so that no frame runs while the
  run is paused.
\<close>

theorem pause_resume_identity:
  assumes "validParameters p" "settled h" "\<not> isPaused (state h)"
  shows "observable (advanceWith p M (commit (resume (commit (pause (advanceWith p N h))))))
         = observable (advanceWith p (N + M) h)"
proof -
  let ?cns = "computeNextState (computeAccelerationFromState p)"
  let ?cte = "computeEnergy p"
  have E: "\<And>st dt ns. ?cns st dt = Inr ns \<Longrightarrow> \<exists>en. ?cte (position ns) (velocity ns) = Inr en"
    using assms(1) by (rule energy_after_step)
  let ?g = "advance ?cns ?cte N h"
  have g: "settled ?g" using assms(2) by (rule settled_advance)
  have J: "isRunning (state ?g) \<and> isPaused (state ?g) \<longrightarrow>
        (\<exists>e. ?cns \<lparr>position = position (state ?g), velocity = velocity (state ?g)\<rparr> TIMESTEP = Inl e)"
  proof (rule advance_keeps_failure)
    show "\<And>st dt ns. ?cns st dt = Inr ns \<Longrightarrow> \<exists>en. ?cte (position ns) (velocity ns) = Inr en"
      by (rule E)
    show "settled h" by (rule assms(2))
    show "isRunning (state h) \<and> isPaused (state h) \<longrightarrow>
        (\<exists>e. ?cns \<lparr>position = position (state h), velocity = velocity (state h)\<rparr> TIMESTEP = Inl e)"
      using assms(3) by simp
  qed
  have "observable (advance ?cns ?cte M (commit (resume (commit (pause ?g))))) = observable (advance ?cns ?cte M ?g)"
    using E g J by (rule pause_resume_general)
  then show ?thesis by (simp add: advanceWith_def advance_add)
qed


theorem pause_resume_identity_witness:
  "validParameters defaultParameters \<and> settled displacedRun \<and> \<not> isPaused (state displacedRun)
   \<and> observable (advanceWith defaultParameters 3
         (commit (resume (commit (pause (advanceWith defaultParameters 2 displacedRun))))))
       = observable (advanceWith defaultParameters (2 + 3) displacedRun)"
proof -
  have p: "\<not> isPaused (state displacedRun)" by (simp add: displacedRun_eq)
  show ?thesis
    using pause_resume_identity [OF valid_defaultParameters settled_displacedRun p, of 3 2]
      valid_defaultParameters settled_displacedRun p
    by simp
qed

text \<open>
  C6.  Whatever the state, the run mode and the buffer were, \<^verbatim>\<open>reset\<close> leaves position,
  velocity, acceleration and elapsed time at zero, the run stopped, and the four series empty.
\<close>

theorem reset_yields_initial_state:
  "state (reset h) =
     \<lparr>position = Fin 0, velocity = Fin 0, acceleration = Fin 0, time = Fin 0,
      isRunning = False, isPaused = False\<rparr>
   \<and> displacement (timeSeriesData (reset h)) = []
   \<and> velocity' (timeSeriesData (reset h)) = []
   \<and> acceleration' (timeSeriesData (reset h)) = []
   \<and> totalEnergy (timeSeriesData (reset h)) = []"
  by (simp add: reset_def cancelPendingFrame_def cancelAnimationFrame_def clearData_def
      split: option.splits)

end
